theory Spec2Isabelle
  imports Complex_Main
begin

section \<open>Python values and built-ins used by the scraper\<close>

text \<open>
  Strings are byte strings (\<open>char list\<close>); the models below are those of CPython on
  ASCII text. An exception that the source does not catch is a value \<open>Inl e\<close> of the
  result type \<open>error + 'a\<close>.
\<close>

datatype error = ValueError | KeyError | IndexError

definition and_then :: "error + 'a \<Rightarrow> ('a \<Rightarrow> error + 'b) \<Rightarrow> error + 'b" where
  "and_then m f = (case m of Inl e \<Rightarrow> Inl e | Inr x \<Rightarrow> f x)"

text \<open>\<open>str.isspace\<close> on ASCII: TAB, LF, VT, FF, CR, FS, GS, RS, US and space.\<close>

definition py_isspace :: "char \<Rightarrow> bool" where
  "py_isspace c = (c \<in> set [CHR 0x09, CHR 0x0A, CHR 0x0B, CHR 0x0C, CHR 0x0D,
                              CHR 0x1C, CHR 0x1D, CHR 0x1E, CHR 0x1F, CHR '' ''])"

text \<open>\<open>s.strip()\<close>\<close>

definition strip :: "string \<Rightarrow> string" where
  "strip s = rev (dropWhile py_isspace (rev (dropWhile py_isspace s)))"

definition is_digit :: "char \<Rightarrow> bool" where
  "is_digit c = (c \<in> set ''0123456789'')"

definition is_upper :: "char \<Rightarrow> bool" where
  "is_upper c = (c \<in> set ''ABCDEFGHIJKLMNOPQRSTUVWXYZ'')"

definition is_lower :: "char \<Rightarrow> bool" where
  "is_lower c = (c \<in> set ''abcdefghijklmnopqrstuvwxyz'')"

definition is_alpha :: "char \<Rightarrow> bool" where
  "is_alpha c = (is_upper c \<or> is_lower c)"

text \<open>\<open>c.lower()\<close> on ASCII.\<close>

definition lower_char :: "char \<Rightarrow> char" where
  "lower_char c =
     (case map_of (zip ''ABCDEFGHIJKLMNOPQRSTUVWXYZ'' ''abcdefghijklmnopqrstuvwxyz'') c of
        Some l \<Rightarrow> l
      | None \<Rightarrow> c)"

definition digit_val :: "char \<Rightarrow> nat" where
  "digit_val c = (case map_of (zip ''0123456789'' [0, 1, 2, 3, 4, 5, 6, 7, 8, 9]) c of
                    Some d \<Rightarrow> d
                  | None \<Rightarrow> 0)"

text \<open>The number a string of decimal digits denotes.\<close>

definition nat_of_digits :: "string \<Rightarrow> nat" where
  "nat_of_digits ds = foldl (\<lambda>a c. 10 * a + digit_val c) 0 ds"

fun str_of_nat :: "nat \<Rightarrow> string" where
  "str_of_nat n =
     (if n < 10 then [''0123456789'' ! n]
      else str_of_nat (n div 10) @ [''0123456789'' ! (n mod 10)])"

declare str_of_nat.simps [simp del]

text \<open>\<open>str(i)\<close> for an int.\<close>

definition py_str :: "int \<Rightarrow> string" where
  "py_str i = (if i < 0 then CHR ''-'' # str_of_nat (nat (- i)) else str_of_nat (nat i))"

text \<open>\<open>s.startswith(p)\<close> and \<open>sub in s\<close>.\<close>

definition startswith :: "string \<Rightarrow> string \<Rightarrow> bool" where
  "startswith p s = (take (length p) s = p)"

fun contains :: "string \<Rightarrow> string \<Rightarrow> bool" where
  "contains sub [] = (sub = [])"
| "contains sub (c # cs) = (startswith sub (c # cs) \<or> contains sub cs)"

text \<open>
  \<open>int(s)\<close> for a string: surrounding whitespace is stripped, one sign is allowed, and
  the digits may be grouped by single underscores; anything else raises \<open>ValueError\<close>.
  (The limit on the number of digits of CPython 3.11, 4300 by default, is not modelled.)
\<close>

definition int_body_ok :: "string \<Rightarrow> bool" where
  "int_body_ok b =
     (b \<noteq> [] \<and> list_all (\<lambda>c. is_digit c \<or> c = CHR ''_'') b \<and> is_digit (hd b) \<and>
      is_digit (last b) \<and> \<not> contains ''__'' b)"

definition py_int :: "string \<Rightarrow> error + int" where
  "py_int s =
     (let t = strip s;
          neg = startswith ''-'' t;
          b = (if startswith ''-'' t \<or> startswith ''+'' t then drop 1 t else t)
      in if int_body_ok b
         then Inr ((if neg then - 1 else 1) * int (nat_of_digits (filter is_digit b)))
         else Inl ValueError)"

text \<open>\<open>s.split(d)\<close> for a one-character separator, and \<open>sep.join(xs)\<close>.\<close>

fun split_on :: "char \<Rightarrow> string \<Rightarrow> string list" where
  "split_on d [] = [[]]"
| "split_on d (c # cs) =
     (if c = d then [] # split_on d cs
      else (case split_on d cs of x # xs \<Rightarrow> (c # x) # xs | [] \<Rightarrow> [[c]]))"

fun join :: "string \<Rightarrow> string list \<Rightarrow> string" where
  "join sep [] = []"
| "join sep [x] = x"
| "join sep (x # y # ys) = x @ sep @ join sep (y # ys)"

text \<open>
  \<open>s.partition(d)\<close> gives \<open>(before d s, d \<in> set s, after d s)\<close>; \<open>s.split(d, 1)\<close> gives
  \<open>[before d s, after d s]\<close> when \<open>d\<close> occurs in \<open>s\<close>.
\<close>

definition before :: "char \<Rightarrow> string \<Rightarrow> string" where
  "before d s = takeWhile (\<lambda>c. c \<noteq> d) s"

definition after :: "char \<Rightarrow> string \<Rightarrow> string" where
  "after d s = drop 1 (dropWhile (\<lambda>c. c \<noteq> d) s)"

text \<open>
  A \<open>dict\<close> with string keys, in insertion order: an association list with distinct
  keys. \<open>d[k] = v\<close> replaces the value of a key in place and appends a new key.
\<close>

type_synonym 'v dict = "(string \<times> 'v) list"

fun dict_set :: "string \<Rightarrow> 'v \<Rightarrow> 'v dict \<Rightarrow> 'v dict" where
  "dict_set k v [] = [(k, v)]"
| "dict_set k v (p # ps) = (if fst p = k then (k, v) # ps else p # dict_set k v ps)"

text \<open>\<open>xs[0]\<close>\<close>

definition first :: "'a list \<Rightarrow> error + 'a" where
  "first xs = (case xs of [] \<Rightarrow> Inl IndexError | x # _ \<Rightarrow> Inr x)"

section \<open>The regular expressions of the scraper\<close>

text \<open>
  \<open>re.search(r"(\d+(?:\.\d+)?)", val)\<close>: the leftmost match starts at the first digit,
  \<open>\d+\<close> takes the whole run of digits, and the optional group takes a dot and the
  digits after it when there is at least one. The result is group 1, split into the
  integer part and the fractional part with its dot (empty when the group did not match).
\<close>

definition re_search_number :: "string \<Rightarrow> (string \<times> string) option" where
  "re_search_number val =
     (case dropWhile (\<lambda>c. \<not> is_digit c) val of
        [] \<Rightarrow> None
      | d # r \<Rightarrow>
          (let ip = takeWhile is_digit (d # r);
               rest = dropWhile is_digit (d # r)
           in if startswith ''.'' rest \<and> takeWhile is_digit (drop 1 rest) \<noteq> []
              then Some (ip, CHR ''.'' # takeWhile is_digit (drop 1 rest))
              else Some (ip, [])))"

text \<open>
  \<open>float(g)\<close> for a matched group \<open>g = ip @ fp\<close>: the model keeps the exact decimal value,
  which CPython then rounds to the nearest double (to 0.0 below the smallest double, to
  \<open>inf\<close> above the largest). On such a group \<open>float\<close> never raises.
\<close>

definition py_float :: "string \<times> string \<Rightarrow> rat" where
  "py_float g =
     (case g of (ip, fp) \<Rightarrow>
        of_nat (nat_of_digits ip) + of_nat (nat_of_digits (drop 1 fp)) / 10 ^ length (drop 1 fp))"

text \<open>
  \<open>re.compile(r"\b(Next|Older|More)\b", re.I).search(s)\<close>: some occurrence of one of the
  words, in any letter case, that is neither preceded nor followed by a word character
  (letter, digit or underscore). \<open>prev\<close> says whether the character before the current
  position is a word character.
\<close>

definition is_word_char :: "char \<Rightarrow> bool" where
  "is_word_char c = (is_alpha c \<or> is_digit c \<or> c = CHR ''_'')"

definition word_here :: "string \<Rightarrow> string \<Rightarrow> bool" where
  "word_here w s =
     (map lower_char (take (length w) s) = map lower_char w \<and>
      (case drop (length w) s of [] \<Rightarrow> True | c # _ \<Rightarrow> \<not> is_word_char c))"

fun search_words :: "string list \<Rightarrow> bool \<Rightarrow> string \<Rightarrow> bool" where
  "search_words ws prev [] = False"
| "search_words ws prev (c # cs) =
     ((\<not> prev \<and> list_ex (\<lambda>w. word_here w (c # cs)) ws) \<or> search_words ws (is_word_char c) cs)"

definition next_words :: "string list" where
  "next_words = [''Next'', ''Older'', ''More'']"

definition re_next_search :: "string \<Rightarrow> bool" where
  "re_next_search s = search_words next_words False s"

text \<open>
  \<open>re.search(r'(\d+)\D*$', s)\<close>: group 1 is the last run of digits of \<open>s\<close>, whole;
  there is no match when \<open>s\<close> has no digit.
\<close>

definition re_search_trailing_number :: "string \<Rightarrow> string option" where
  "re_search_trailing_number s =
     (let r = dropWhile (\<lambda>c. \<not> is_digit c) (rev s)
      in if r = [] then None else Some (rev (takeWhile is_digit r)))"

section \<open>\<open>os.path\<close> (POSIX)\<close>

definition basename :: "string \<Rightarrow> string" where
  "basename p = rev (takeWhile (\<lambda>c. c \<noteq> CHR ''/'') (rev p))"

text \<open>
  \<open>os.path.splitext(p)[0]\<close> for a name without directory: the name up to its last dot,
  unless that dot is one of the leading dots of the name.
\<close>

definition splitext_root :: "string \<Rightarrow> string" where
  "splitext_root p =
     (let ext = rev (takeWhile (\<lambda>c. c \<noteq> CHR ''.'') (rev p));
          root = take (length p - length ext - 1) p
      in if CHR ''.'' \<in> set p \<and> dropWhile (\<lambda>c. c = CHR ''.'') root \<noteq> [] then root else p)"

section \<open>\<open>urllib.parse\<close> (CPython 3.11)\<close>

definition uses_relative :: "string list" where
  "uses_relative = ['''', ''ftp'', ''http'', ''gopher'', ''nntp'', ''imap'', ''wais'', ''file'',
     ''https'', ''shttp'', ''mms'', ''prospero'', ''rtsp'', ''rtsps'', ''rtspu'', ''sftp'',
     ''svn'', ''svn+ssh'', ''ws'', ''wss'']"

definition uses_netloc :: "string list" where
  "uses_netloc = ['''', ''ftp'', ''http'', ''gopher'', ''nntp'', ''telnet'', ''imap'', ''wais'',
     ''file'', ''mms'', ''https'', ''shttp'', ''snews'', ''prospero'', ''rtsp'', ''rtsps'',
     ''rtspu'', ''rsync'', ''svn'', ''svn+ssh'', ''sftp'', ''nfs'', ''git'', ''git+ssh'',
     ''ws'', ''wss'']"

definition uses_params :: "string list" where
  "uses_params = ['''', ''ftp'', ''hdl'', ''prospero'', ''http'', ''imap'', ''https'', ''shttp'',
     ''rtsp'', ''rtsps'', ''rtspu'', ''sip'', ''sips'', ''mms'', ''sftp'', ''tel'']"

definition scheme_chars :: string where
  "scheme_chars = ''abcdefghijklmnopqrstuvwxyzABCDEFGHIJKLMNOPQRSTUVWXYZ0123456789+-.''"

text \<open>The characters from NUL to space, which \<open>urlsplit\<close> strips.\<close>

definition c0_or_space :: "char \<Rightarrow> bool" where
  "c0_or_space c = ((of_char c :: nat) \<le> 32)"

definition remove_unsafe :: "string \<Rightarrow> string" where
  "remove_unsafe s = filter (\<lambda>c. c \<notin> set [CHR 0x09, CHR 0x0D, CHR 0x0A]) s"

text \<open>
  \<open>urlsplit(url, scheme)\<close> gives \<open>(scheme, netloc, path, query, fragment)\<close>. It raises
  \<open>ValueError\<close> on a netloc with one square bracket but not the other. Of its two other
  checks, the one of the address between two brackets (module \<open>ipaddress\<close>) and the one
  of a non-ASCII netloc under NFKC normalisation, neither is modelled: such a netloc
  is accepted here.
\<close>

definition urlsplit :: "string \<Rightarrow> string \<Rightarrow> error + (string \<times> string \<times> string \<times> string \<times> string)" where
  "urlsplit url0 scheme0 =
     (let url1 = remove_unsafe (dropWhile c0_or_space url0);
          scheme1 = remove_unsafe (rev (dropWhile c0_or_space (rev (dropWhile c0_or_space scheme0))));
          pre = before CHR '':'' url1;
          has_scheme = (CHR '':'' \<in> set url1 \<and> pre \<noteq> [] \<and> is_alpha (hd pre) \<and>
                        list_all (\<lambda>c. c \<in> set scheme_chars) pre);
          scheme2 = (if has_scheme then map lower_char pre else scheme1);
          url2 = (if has_scheme then after CHR '':'' url1 else url1);
          has_netloc = startswith ''//'' url2;
          nl = (if has_netloc then takeWhile (\<lambda>c. c \<notin> set ''/?#'') (drop 2 url2) else []);
          url3 = (if has_netloc then dropWhile (\<lambda>c. c \<notin> set ''/?#'') (drop 2 url2) else url2);
          frag = after CHR ''#'' url3;
          url4 = before CHR ''#'' url3;
          qry = after CHR ''?'' url4;
          url5 = before CHR ''?'' url4
      in if (CHR ''['' \<in> set nl) \<noteq> (CHR '']'' \<in> set nl) then Inl ValueError
         else Inr (scheme2, nl, url5, qry, frag))"

text \<open>\<open>ParseResult\<close>, the six components that \<open>urlparse\<close> returns.\<close>

record parse_result =
  scheme :: string
  netloc :: string
  path :: string
  params :: string
  query :: string
  fragment :: string

definition splitparams :: "string \<Rightarrow> string \<times> string" where
  "splitparams url =
     (let seg = basename url;
          dir = take (length url - length seg) url
      in if CHR ''/'' \<in> set url
         then (if CHR '';'' \<in> set seg then (dir @ before CHR '';'' seg, after CHR '';'' seg)
               else (url, []))
         else (before CHR '';'' url, after CHR '';'' url))"

definition urlparse :: "string \<Rightarrow> string \<Rightarrow> error + parse_result" where
  "urlparse url scheme0 =
     and_then (urlsplit url scheme0) (\<lambda>(sch, nl, p, q, f).
       let (p', prm) = (if sch \<in> set uses_params \<and> CHR '';'' \<in> set p then splitparams p
                        else (p, []))
       in Inr \<lparr>scheme = sch, netloc = nl, path = p', params = prm, query = q, fragment = f\<rparr>)"

definition urlunsplit :: "string \<times> string \<times> string \<times> string \<times> string \<Rightarrow> string" where
  "urlunsplit c =
     (case c of (sch, nl, url, q, f) \<Rightarrow>
        let url1 = (if nl \<noteq> [] \<or> (sch \<noteq> [] \<and> sch \<in> set uses_netloc) \<or> startswith ''//'' url
                    then ''//'' @ nl @ (if url \<noteq> [] \<and> \<not> startswith ''/'' url then ''/'' @ url else url)
                    else url);
            url2 = (if sch \<noteq> [] then sch @ '':'' @ url1 else url1);
            url3 = (if q \<noteq> [] then url2 @ ''?'' @ q else url2)
        in if f \<noteq> [] then url3 @ ''#'' @ f else url3)"

definition urlunparse :: "parse_result \<Rightarrow> string" where
  "urlunparse u =
     urlunsplit (scheme u, netloc u,
                 (if params u \<noteq> [] then path u @ '';'' @ params u else path u),
                 query u, fragment u)"

text \<open>
  The path resolution of \<open>urljoin\<close>: \<open>segments[1:-1] = filter(None, segments[1:-1])\<close>
  and the loop over the segments.
\<close>

definition filter_middle :: "string list \<Rightarrow> string list" where
  "filter_middle segs =
     (case segs of
        [] \<Rightarrow> []
      | [x] \<Rightarrow> [x]
      | x # y # ys \<Rightarrow> x # filter (\<lambda>s. s \<noteq> []) (butlast (y # ys)) @ [last (y # ys)])"

fun resolve_segments :: "string list \<Rightarrow> string list \<Rightarrow> string list" where
  "resolve_segments resolved [] = resolved"
| "resolve_segments resolved (seg # segs) =
     (if seg = ''..'' then resolve_segments (butlast resolved) segs
      else if seg = ''.'' then resolve_segments resolved segs
      else resolve_segments (resolved @ [seg]) segs)"

definition urljoin :: "string \<Rightarrow> string \<Rightarrow> error + string" where
  "urljoin base url =
     (if base = [] then Inr url
      else if url = [] then Inr base
      else
        and_then (urlparse base []) (\<lambda>b.
        and_then (urlparse url (scheme b)) (\<lambda>u.
          if scheme u \<noteq> scheme b \<or> scheme u \<notin> set uses_relative then Inr url
          else if scheme u \<in> set uses_netloc \<and> netloc u \<noteq> [] then Inr (urlunparse u)
          else
            let nl = (if scheme u \<in> set uses_netloc then netloc b else netloc u)
            in if path u = [] \<and> params u = []
               then Inr (urlunparse (u\<lparr>netloc := nl, path := path b, params := params b,
                                        query := (if query u = [] then query b else query u)\<rparr>))
               else
                 let base_parts0 = split_on CHR ''/'' (path b);
                     base_parts = (if last base_parts0 \<noteq> [] then butlast base_parts0
                                   else base_parts0);
                     segments = (if startswith ''/'' (path u) then split_on CHR ''/'' (path u)
                                 else filter_middle (base_parts @ split_on CHR ''/'' (path u)));
                     resolved0 = resolve_segments [] segments;
                     resolved = (if last segments \<in> set [''.'', ''..''] then resolved0 @ [[]]
                                 else resolved0);
                     joined = join ''/'' resolved
                 in Inr (urlunparse (u\<lparr>netloc := nl,
                                          path := (if joined = [] then ''/'' else joined)\<rparr>)))))"

text \<open>
  \<open>unquote\<close>: each \<open>%XX\<close> with two hexadecimal digits becomes the byte \<open>XX\<close> (the model
  is on bytes: CPython then decodes the bytes as UTF-8, replacing invalid sequences).
\<close>

definition hexdig :: string where
  "hexdig = ''0123456789ABCDEFabcdef''"

definition hex_val :: "char \<Rightarrow> nat" where
  "hex_val c =
     (case map_of (zip hexdig [0, 1, 2, 3, 4, 5, 6, 7, 8, 9, 10, 11, 12, 13, 14, 15,
                               10, 11, 12, 13, 14, 15]) c of
        Some d \<Rightarrow> d
      | None \<Rightarrow> 0)"

definition unquote_item :: "string \<Rightarrow> string" where
  "unquote_item item =
     (case item of
        h # l # rest \<Rightarrow>
          if h \<in> set hexdig \<and> l \<in> set hexdig then char_of (16 * hex_val h + hex_val l) # rest
          else CHR ''%'' # item
      | _ \<Rightarrow> CHR ''%'' # item)"

definition unquote :: "string \<Rightarrow> string" where
  "unquote s =
     (case split_on CHR ''%'' s of [] \<Rightarrow> [] | b # items \<Rightarrow> b @ concat (map unquote_item items))"

definition unquote_plus :: "string \<Rightarrow> string" where
  "unquote_plus s = unquote (map (\<lambda>c. if c = CHR ''+'' then CHR '' '' else c) s)"

text \<open>\<open>parse_qsl(qs)\<close> with its defaults: fields without a value are dropped.\<close>

definition parse_qsl :: "string \<Rightarrow> (string \<times> string) list" where
  "parse_qsl qs =
     (if qs = [] then []
      else map (\<lambda>nv. (unquote_plus (before CHR ''='' nv), unquote_plus (after CHR ''='' nv)))
             (filter (\<lambda>nv. nv \<noteq> [] \<and> after CHR ''='' nv \<noteq> []) (split_on CHR ''&'' qs)))"

text \<open>\<open>parse_qs(qs)\<close>: the values of each name, in a dict in order of first occurrence.\<close>

definition parse_qs_add :: "string list dict \<Rightarrow> string \<times> string \<Rightarrow> string list dict" where
  "parse_qs_add d nv =
     (case map_of d (fst nv) of
        Some vs \<Rightarrow> dict_set (fst nv) (vs @ [snd nv]) d
      | None \<Rightarrow> dict_set (fst nv) [snd nv] d)"

definition parse_qs :: "string \<Rightarrow> string list dict" where
  "parse_qs qs = foldl parse_qs_add [] (parse_qsl qs)"

text \<open>
  \<open>quote_plus(s)\<close>: letters, digits and \<open>_.-~\<close> are kept, a space becomes \<open>+\<close>, any
  other byte becomes \<open>%XX\<close> in upper-case hexadecimal.
\<close>

definition always_safe :: string where
  "always_safe = ''ABCDEFGHIJKLMNOPQRSTUVWXYZabcdefghijklmnopqrstuvwxyz0123456789_.-~''"

definition quote_plus_char :: "char \<Rightarrow> string" where
  "quote_plus_char c =
     (if c \<in> set always_safe then [c]
      else if c = CHR '' '' then ''+''
      else [CHR ''%'', ''0123456789ABCDEF'' ! ((of_char c :: nat) div 16),
            ''0123456789ABCDEF'' ! ((of_char c :: nat) mod 16)])"

definition quote_plus :: "string \<Rightarrow> string" where
  "quote_plus s = concat (map quote_plus_char s)"

text \<open>\<open>urlencode(d)\<close> for a dict from strings to strings.\<close>

definition urlencode :: "string dict \<Rightarrow> string" where
  "urlencode d = join ''&'' (map (\<lambda>(k, v). quote_plus k @ ''='' @ quote_plus v) d)"

section \<open>The parsed page (\<open>bs4\<close>)\<close>

text \<open>
  A parsed page is a tree of tags and strings. A tag has a name, its attributes (a dict;
  for the attributes that \<open>bs4\<close> keeps as lists of tokens, \<open>rel\<close> and \<open>class\<close>, the
  tokens joined by single spaces, which is what a CSS attribute selector compares) and
  its children. Comments and other special strings are left out.
\<close>

datatype node =
  Tag (tag_name: string) (attrs: "string dict") (contents: "node list")
| NavigableString string

text \<open>\<open>tag.get(key)\<close>\<close>

definition get :: "node \<Rightarrow> string \<Rightarrow> string option" where
  "get n key = (case n of Tag _ a _ \<Rightarrow> map_of a key | NavigableString _ \<Rightarrow> None)"

text \<open>\<open>tag.descendants\<close>: all nodes below a tag, in document order.\<close>

fun descendants :: "node \<Rightarrow> node list" where
  "descendants (Tag nm a cs) = concat (map (\<lambda>c. c # descendants c) cs)"
| "descendants (NavigableString s) = []"

text \<open>\<open>tag.get_text(sep, strip=True)\<close>: the strings below the tag, each stripped, the
  empty ones dropped, joined by \<open>sep\<close>.\<close>

definition all_strings :: "node \<Rightarrow> string list" where
  "all_strings n = concat (map (\<lambda>d. case d of NavigableString s \<Rightarrow> [s] | Tag _ _ _ \<Rightarrow> []) (descendants n))"

definition get_text :: "string \<Rightarrow> node \<Rightarrow> string" where
  "get_text sep n = join sep (filter (\<lambda>s. s \<noteq> []) (map strip (all_strings n)))"

text \<open>
  \<open>tag.string\<close>: the string of a tag whose only child is a string, or whose only child
  is a tag that has a \<open>string\<close>; \<open>None\<close> for a tag with no child or several children.
\<close>

fun string_of :: "node \<Rightarrow> string option" where
  "string_of (NavigableString s) = Some s"
| "string_of (Tag nm a cs) = (case cs of [c] \<Rightarrow> string_of c | _ \<Rightarrow> None)"

text \<open>
  \<open>soup.find_all("a", string=re.compile(r"\b(Next|Older|More)\b", re.I))\<close>: the \<open>a\<close>
  tags, in document order, whose \<open>string\<close> exists and is matched by the pattern.
\<close>

definition is_next_anchor :: "node \<Rightarrow> bool" where
  "is_next_anchor n =
     (case n of
        Tag nm _ _ \<Rightarrow> nm = ''a'' \<and> (case string_of n of Some s \<Rightarrow> re_next_search s | None \<Rightarrow> False)
      | NavigableString _ \<Rightarrow> False)"

definition find_all_next_anchors :: "node \<Rightarrow> node list" where
  "find_all_next_anchors soup = filter is_next_anchor (descendants soup)"

text \<open>
  \<open>soup.select("a[rel='next'], link[rel='next']")\<close>: the \<open>a\<close> and \<open>link\<close> tags, in
  document order, whose \<open>rel\<close> is exactly \<open>next\<close>.
\<close>

definition is_rel_next :: "node \<Rightarrow> bool" where
  "is_rel_next n =
     (case n of
        Tag nm _ _ \<Rightarrow> (nm = ''a'' \<or> nm = ''link'') \<and> get n ''rel'' = Some ''next''
      | NavigableString _ \<Rightarrow> False)"

definition select_rel_next :: "node \<Rightarrow> node list" where
  "select_rel_next soup = filter is_rel_next (descendants soup)"

text \<open>
  The two parts of \<open>bs4\<close> that are taken as they come: the HTML parser,
  \<open>BeautifulSoup(html, "html.parser")\<close>, and the CSS engine on the selectors that the
  user configures, \<open>tag.select(selector)\<close>, which gives the matches in document order.
\<close>

record bs4 =
  html_parser :: "string \<Rightarrow> node"
  select :: "node \<Rightarrow> string \<Rightarrow> node list"

text \<open>\<open>tag.select_one(selector)\<close>: the first match.\<close>

definition first_or_none :: "'a list \<Rightarrow> 'a option" where
  "first_or_none xs = (case xs of [] \<Rightarrow> None | x # _ \<Rightarrow> Some x)"

definition select_one :: "bs4 \<Rightarrow> node \<Rightarrow> string \<Rightarrow> node option" where
  "select_one L n selector = first_or_none (select L n selector)"

section \<open>The network\<close>

text \<open>
  \<open>session.get(url)\<close> returns a response or raises a \<open>RequestException\<close>. What it
  does may depend on everything requested before: a server is a function of the
  requests made so far and of the URL. The world records the requests and the sleeps.
\<close>

datatype response = Response (status_code: int) (body: string) | RequestException

type_synonym server = "string list \<Rightarrow> string \<Rightarrow> response"

record world =
  requests :: "string list"
  sleeps :: "rat list"

section \<open>The scraper\<close>

record review =
  reviewer :: "string option"
  rating :: "rat option"
  date :: "string option"
  text' :: "string option"
  source_url :: string

text \<open>Truth values of Python: \<open>None\<close>, the empty string and \<open>0.0\<close> are false.\<close>

definition truthy_str :: "string option \<Rightarrow> bool" where
  "truthy_str v = (case v of None \<Rightarrow> False | Some s \<Rightarrow> s \<noteq> [])"

definition truthy_float :: "rat option \<Rightarrow> bool" where
  "truthy_float v = (case v of None \<Rightarrow> False | Some r \<Rightarrow> r \<noteq> 0)"

text \<open>\<open>a or b\<close> on optional strings.\<close>

definition or_else :: "string option \<Rightarrow> string option \<Rightarrow> string option" where
  "or_else a b = (if truthy_str a then a else b)"

subsection \<open>\<open>fetch\<close>\<close>

definition retry_status :: "int list" where
  "retry_status = [429, 500, 502, 503, 504, 403]"

fun fetch_attempts :: "server \<Rightarrow> string \<Rightarrow> rat \<Rightarrow> nat list \<Rightarrow> world \<Rightarrow> string option \<times> world" where
  "fetch_attempts srv url backoff [] w = (None, w)"
| "fetch_attempts srv url backoff (attempt # rest) w =
     (let r = srv (requests w) url;
          w1 = w\<lparr>requests := requests w @ [url]\<rparr>
      in case r of
           RequestException \<Rightarrow>
             fetch_attempts srv url backoff rest (w1\<lparr>sleeps := sleeps w1 @ [backoff ^ attempt]\<rparr>)
         | Response sc txt \<Rightarrow>
             if 200 \<le> sc \<and> sc < 300 then (Some txt, w1)
             else if sc \<in> set retry_status
             then fetch_attempts srv url backoff rest (w1\<lparr>sleeps := sleeps w1 @ [backoff ^ attempt]\<rparr>)
             else (None, w1))"

definition fetch :: "server \<Rightarrow> string \<Rightarrow> nat \<Rightarrow> rat \<Rightarrow> world \<Rightarrow> string option \<times> world" where
  "fetch srv url max_retries backoff w = fetch_attempts srv url backoff [1..<max_retries + 1] w"

subsection \<open>\<open>get_text_or_none\<close>, \<open>parse_rating\<close>, \<open>parse_reviews\<close>\<close>

definition get_text_or_none :: "node option \<Rightarrow> string option" where
  "get_text_or_none nd =
     (case nd of
        None \<Rightarrow> None
      | Some n \<Rightarrow> (let txt = get_text [] n in if txt \<noteq> [] then Some txt else None))"

definition parse_rating :: "string option \<Rightarrow> rat option" where
  "parse_rating val =
     (if \<not> truthy_str val then None
      else (case re_search_number (case val of Some v \<Rightarrow> v | None \<Rightarrow> []) of
              None \<Rightarrow> None
            | Some g \<Rightarrow> Some (py_float g)))"

text \<open>
  The selectors are a dict from field names to selector strings. \<open>select_field\<close> is
  \<open>it.select_one(sel.get(k, "")) if sel.get(k) else None\<close>.
\<close>

type_synonym selectors = "string \<rightharpoonup> string"

definition select_field :: "bs4 \<Rightarrow> selectors \<Rightarrow> string \<Rightarrow> node \<Rightarrow> node option" where
  "select_field L sel k it =
     (if truthy_str (sel k) then select_one L it (case sel k of Some s \<Rightarrow> s | None \<Rightarrow> [])
      else None)"

definition rating_raw_of :: "node option \<Rightarrow> string option" where
  "rating_raw_of rating_node =
     (case rating_node of
        None \<Rightarrow> None
      | Some n \<Rightarrow> or_else (get n ''aria-label'') (or_else (get n ''title'') (Some (get_text '' '' n))))"

text \<open>The body of the loop of \<open>parse_reviews\<close>, up to the test that drops a container.\<close>

definition extract_fields :: "bs4 \<Rightarrow> selectors \<Rightarrow> string \<Rightarrow> node \<Rightarrow> review" where
  "extract_fields L sel page_url it =
     \<lparr>reviewer = get_text_or_none (select_field L sel ''reviewer'' it),
      rating = parse_rating (rating_raw_of (select_field L sel ''rating'' it)),
      date = get_text_or_none (select_field L sel ''date'' it),
      text' = get_text_or_none (select_field L sel ''text'' it),
      source_url = page_url\<rparr>"

text \<open>\<open>any([reviewer, rating, date, text])\<close>\<close>

definition any_field :: "review \<Rightarrow> bool" where
  "any_field r =
     (truthy_str (reviewer r) \<or> truthy_float (rating r) \<or> truthy_str (date r) \<or> truthy_str (text' r))"

fun reviews_of_items :: "bs4 \<Rightarrow> selectors \<Rightarrow> string \<Rightarrow> node list \<Rightarrow> review list" where
  "reviews_of_items L sel page_url [] = []"
| "reviews_of_items L sel page_url (it # items) =
     (let r = extract_fields L sel page_url it
      in if \<not> any_field r then reviews_of_items L sel page_url items
         else r # reviews_of_items L sel page_url items)"

definition parse_reviews :: "bs4 \<Rightarrow> string \<Rightarrow> string \<Rightarrow> selectors \<Rightarrow> error + review list" where
  "parse_reviews L html page_url sel =
     (let soup = html_parser L html
      in case sel ''review_container'' of
           None \<Rightarrow> Inl KeyError
         | Some c \<Rightarrow> Inr (reviews_of_items L sel page_url (select L soup c)))"

subsection \<open>\<open>find_next_url\<close>\<close>

text \<open>\<open>n and n.get("href")\<close>: the \<open>href\<close> of a node that was found, when it is not empty.\<close>

definition href_of :: "node option \<Rightarrow> string option" where
  "href_of nd =
     (case nd of
        None \<Rightarrow> None
      | Some n \<Rightarrow> (if truthy_str (get n ''href'') then get n ''href'' else None))"

text \<open>The loop over the candidate anchors: the first \<open>href\<close> that is not empty.\<close>

fun first_href :: "node list \<Rightarrow> string option" where
  "first_href [] = None"
| "first_href (a # as) = (case href_of (Some a) of Some h \<Rightarrow> Some h | None \<Rightarrow> first_href as)"

text \<open>\<open>{k: v[0] for k, v in q.items()}\<close>\<close>

fun first_values :: "string list dict \<Rightarrow> error + string dict" where
  "first_values [] = Inr []"
| "first_values ((k, v) # d) =
     and_then (first v) (\<lambda>x. and_then (first_values d) (\<lambda>d'. Inr ((k, x) # d')))"

text \<open>
  \<open>q["start"] = [str(n)]\<close> on the parsed query of \<open>u\<close>, and the URL put together again
  (the last four lines of \<open>find_next_url\<close>, which the offline mode of \<open>main\<close> repeats).
\<close>

definition with_start :: "parse_result \<Rightarrow> string list dict \<Rightarrow> int \<Rightarrow> error + string" where
  "with_start u q n =
     and_then (first_values (dict_set ''start'' [py_str n] q)) (\<lambda>d.
       Inr (urlunparse (u\<lparr>query := urlencode d\<rparr>)))"

text \<open>The last part of \<open>find_next_url\<close>: the offsets of Yelp, 20 reviews a page.\<close>

definition yelp_fallback :: "string \<Rightarrow> error + string option" where
  "yelp_fallback page_url =
     and_then (urlparse page_url []) (\<lambda>u.
       if contains ''yelp.com'' (netloc u) \<and> contains ''/biz/'' (path u)
       then
         let q = parse_qs (query u)
         in and_then (first (case map_of q ''start'' of Some v \<Rightarrow> v | None \<Rightarrow> [''0''])) (\<lambda>s.
            and_then (py_int s) (\<lambda>start.
              let next_start = start + 20
              in and_then (with_start u q next_start) (\<lambda>nu. Inr (Some nu))))
       else Inr None)"

definition joined :: "string \<Rightarrow> string \<Rightarrow> error + string option" where
  "joined page_url href = and_then (urljoin page_url href) (\<lambda>nu. Inr (Some nu))"

definition find_next_url :: "bs4 \<Rightarrow> string \<Rightarrow> string \<Rightarrow> string option \<Rightarrow> error + string option" where
  "find_next_url L html page_url sel_next =
     (let soup = html_parser L html;
          n1 = (if truthy_str sel_next
                then select_one L soup (case sel_next of Some s \<Rightarrow> s | None \<Rightarrow> [])
                else None)
      in case href_of n1 of
           Some h \<Rightarrow> joined page_url h
         | None \<Rightarrow>
             (case href_of (first_or_none (select_rel_next soup)) of
                Some h \<Rightarrow> joined page_url h
              | None \<Rightarrow>
                  (case first_href (find_all_next_anchors soup) of
                     Some h \<Rightarrow> joined page_url h
                   | None \<Rightarrow> yelp_fallback page_url)))"

subsection \<open>\<open>main\<close>\<close>

text \<open>The command line, as far as the two modes of \<open>main\<close> read it.\<close>

record args =
  start_url :: string
  pages :: int
  review_container :: string
  sel_reviewer :: string
  sel_rating :: string
  sel_date :: string
  sel_text :: string
  sel_next :: string
  offline_files :: "string list"
  offline_base :: string

definition selectors_of :: "args \<Rightarrow> selectors" where
  "selectors_of a =
     [''review_container'' \<mapsto> review_container a, ''reviewer'' \<mapsto> sel_reviewer a,
      ''rating'' \<mapsto> sel_rating a, ''date'' \<mapsto> sel_date a, ''text'' \<mapsto> sel_text a]"

text \<open>
  The file system: \<open>glob.glob\<close>, reading a file (\<open>None\<close> when \<open>open\<close> or \<open>read\<close> raises)
  and \<open>os.path.abspath\<close>. Paths are POSIX paths: \<open>os.sep\<close> is \<open>/\<close>, so that
  \<open>replace(os.sep, '/')\<close> changes nothing.
\<close>

record files =
  glob :: "string \<Rightarrow> string list"
  read_file :: "string \<Rightarrow> string option"
  abspath :: "string \<Rightarrow> string"

text \<open>
  What a run leaves: the reviews collected, the URLs given to \<open>fetch\<close> in order, the
  world, and the exception that ended the run, if one did.
\<close>

record run =
  all_reviews :: "review list"
  fetched :: "string list"
  net :: world
  raised :: "error option"

text \<open>Offline mode: the offset guessed from the file name, and the source URL.\<close>

definition offline_offset :: "string \<Rightarrow> int" where
  "offline_offset fp =
     (case re_search_trailing_number (splitext_root (basename fp)) of
        None \<Rightarrow> 0
      | Some g \<Rightarrow> (case py_int g of Inl _ \<Rightarrow> 0 | Inr n \<Rightarrow> max 0 ((n - 1) * 20)))"

definition offline_source_url :: "files \<Rightarrow> string \<Rightarrow> string \<Rightarrow> error + string" where
  "offline_source_url F base fp =
     (if base \<noteq> []
      then and_then (urlparse base []) (\<lambda>u. with_start u (parse_qs (query u)) (offline_offset fp))
      else Inr (''file:///'' @ abspath F fp))"

fun offline_loop :: "bs4 \<Rightarrow> files \<Rightarrow> string \<Rightarrow> selectors \<Rightarrow> string list \<Rightarrow> review list \<Rightarrow> error + review list" where
  "offline_loop L F base sel [] acc = Inr acc"
| "offline_loop L F base sel (fp # fps) acc =
     (case read_file F fp of
        None \<Rightarrow> offline_loop L F base sel fps acc
      | Some html \<Rightarrow>
          and_then (offline_source_url F base fp) (\<lambda>src.
          and_then (parse_reviews L html src sel) (\<lambda>page_reviews.
            offline_loop L F base sel fps (acc @ page_reviews))))"

text \<open>
  Online mode: the loop over the page numbers. The sleep between two pages has no effect
  on what is computed and is left out.
\<close>

fun online_loop :: "bs4 \<Rightarrow> server \<Rightarrow> selectors \<Rightarrow> string option \<Rightarrow> nat list \<Rightarrow> string \<Rightarrow> string set \<Rightarrow> run \<Rightarrow> run" where
  "online_loop L srv sel nsel [] url seen_urls r = r"
| "online_loop L srv sel nsel (page_idx # rest) url seen_urls r =
     (if url = [] \<or> url \<in> seen_urls then r
      else
        let res = fetch srv url 4 (9 / 5) (net r);
            r1 = r\<lparr>fetched := fetched r @ [url], net := snd res\<rparr>
        in if \<not> truthy_str (fst res) then r1
           else
             let html = (case fst res of Some h \<Rightarrow> h | None \<Rightarrow> [])
             in case parse_reviews L html url sel of
                  Inl e \<Rightarrow> r1\<lparr>raised := Some e\<rparr>
                | Inr page_reviews \<Rightarrow>
                    (let r2 = r1\<lparr>all_reviews := all_reviews r1 @ page_reviews\<rparr>
                     in case find_next_url L html url nsel of
                          Inl e \<Rightarrow> r2\<lparr>raised := Some e\<rparr>
                        | Inr next_url \<Rightarrow>
                            if \<not> truthy_str next_url then r2
                            else online_loop L srv sel nsel rest
                                   (case next_url of Some u \<Rightarrow> u | None \<Rightarrow> [])
                                   (insert url seen_urls) r2))"

definition main :: "bs4 \<Rightarrow> files \<Rightarrow> server \<Rightarrow> args \<Rightarrow> run" where
  "main L F srv a =
     (let sel = selectors_of a;
          r0 = \<lparr>all_reviews = [], fetched = [], net = \<lparr>requests = [], sleeps = []\<rparr>, raised = None\<rparr>
      in if offline_files a \<noteq> []
         then (case offline_loop L F (offline_base a) sel (concat (map (glob F) (offline_files a))) [] of
                 Inl e \<Rightarrow> r0\<lparr>raised := Some e\<rparr>
               | Inr rs \<Rightarrow> r0\<lparr>all_reviews := rs\<rparr>)
         else online_loop L srv sel (if sel_next a \<noteq> [] then Some (sel_next a) else None)
                [1..<nat (pages a + 1)] (start_url a) {} r0)"

section \<open>Notions of the specification\<close>

subsection \<open>Decimal numbers in a text\<close>






subsection \<open>Pages and a CSS engine for the examples\<close>

text \<open>
  The CSS engine on type selectors (a tag name), and a parser given by a table from
  HTML texts to their trees.
\<close>

definition select_by_tag :: "node \<Rightarrow> string \<Rightarrow> node list" where
  "select_by_tag n selector =
     filter (\<lambda>d. case d of Tag nm _ _ \<Rightarrow> nm = selector | NavigableString _ \<Rightarrow> False) (descendants n)"

definition document :: "node list \<Rightarrow> node" where
  "document cs = Tag ''[document]'' [] cs"

definition parser_of :: "(string \<times> node) list \<Rightarrow> string \<Rightarrow> node" where
  "parser_of tbl html = (case map_of tbl html of Some soup \<Rightarrow> soup | None \<Rightarrow> document [])"

definition example_bs4 :: "(string \<times> node) list \<Rightarrow> bs4" where
  "example_bs4 tbl = \<lparr>html_parser = parser_of tbl, select = select_by_tag\<rparr>"

text \<open>A field has no selector: the key is missing from the dict, or its selector is empty.\<close>

definition no_selector :: "selectors \<Rightarrow> string \<Rightarrow> bool" where
  "no_selector sel k = (sel k = None \<or> sel k = Some [])"

definition zero_page :: "string \<times> node" where
  "zero_page = (''<li><b>0 stars</b></li>'', document [Tag ''li'' [] [Tag ''b'' [] [NavigableString ''0 stars'']]])"

definition names_page :: "string \<times> node" where
  "names_page =
     (''<li><b>Ann</b> 5 stars</li><li><b>Bob</b></li><li></li>'',
      document [Tag ''li'' [] [Tag ''b'' [] [NavigableString ''Ann''], NavigableString '' 5 stars''],
                Tag ''li'' [] [Tag ''b'' [] [NavigableString ''Bob'']],
                Tag ''li'' [] []])"

subsection \<open>The attempts of one fetch\<close>


definition retryable :: "response \<Rightarrow> bool" where
  "retryable r =
     (case r of
        RequestException \<Rightarrow> True
      | Response sc _ \<Rightarrow> sc \<in> {429, 500, 502, 503, 504, 403})"




subsection \<open>The order of resolution of the next page\<close>












definition plain_page :: "string \<times> node" where
  "plain_page = (''<p>No more reviews.</p>'', document [Tag ''p'' [] [NavigableString ''No more reviews.'']])"

subsection \<open>The offset of an offline file\<close>




definition example_files :: files where
  "example_files = \<lparr>glob = (\<lambda>pat. [pat]), read_file = (\<lambda>fp. None), abspath = (\<lambda>fp. ''/data/'' @ fp)\<rparr>"

subsection \<open>A site for the examples\<close>

text \<open>
  Pages of review cards: a first page of 20 cards with a link to the next page, a second
  page of 5 cards, and a page whose next link is the page itself; a server that answers
  each URL of a table with its page; a command line; the state of a run at its start.
\<close>

definition card :: node where
  "card = Tag ''li'' [] [Tag ''b'' [] [NavigableString ''Ann'']]"

definition page_one :: "string \<times> node" where
  "page_one =
     (concat (replicate 20 ''<li><b>Ann</b></li>'') @ ''<a rel=next href=/p2>Next</a>'',
      document (replicate 20 card @
                [Tag ''a'' [(''rel'', ''next''), (''href'', ''/p2'')] [NavigableString ''Next'']]))"

definition page_two :: "string \<times> node" where
  "page_two = (concat (replicate 5 ''<li><b>Ann</b></li>''), document (replicate 5 card))"

definition looping_page :: "string \<times> node" where
  "looping_page =
     (''<li><b>Ann</b></li><a rel=next href=/p1>Next</a>'',
      document [card, Tag ''a'' [(''rel'', ''next''), (''href'', ''/p1'')] [NavigableString ''Next'']])"

definition site :: "(string \<times> string) list \<Rightarrow> server" where
  "site tbl hist url = (case map_of tbl url of Some html \<Rightarrow> Response 200 html | None \<Rightarrow> Response 404 [])"

definition example_args :: args where
  "example_args =
     \<lparr>start_url = ''https://x.com/p1'', pages = 3, review_container = ''li'', sel_reviewer = ''b'',
      sel_rating = [], sel_date = [], sel_text = [], sel_next = [], offline_files = [],
      offline_base = []\<rparr>"

definition new_run :: run where
  "new_run = \<lparr>all_reviews = [], fetched = [], net = \<lparr>requests = [], sleeps = []\<rparr>, raised = None\<rparr>"

section \<open>Properties\<close>

subsection \<open>The rating parser\<close>










subsection \<open>The extractor\<close>

lemma reviews_of_items_filter:
  "reviews_of_items L sel page_url items = filter any_field (map (extract_fields L sel page_url) items)"
  by (induction items) (simp_all add: Let_def)

lemma select_field_none: "no_selector sel k \<Longrightarrow> select_field L sel k it = None"
  by (auto simp: no_selector_def select_field_def truthy_str_def)

lemma parse_rating_None [simp]: "parse_rating None = None"
  by (simp add: parse_rating_def truthy_str_def)

text \<open>
  C4. For every page, whatever the number of containers that the container selector
  matches, a field (reviewer, rating, date or text) whose selector is missing or empty
  is \<open>None\<close> in every record that \<open>parse_reviews\<close> produces.
\<close>

theorem missing_selector_field_none:
  assumes "parse_reviews L html page_url sel = Inr rs" and "r \<in> set rs"
  shows "(no_selector sel ''reviewer'' \<longrightarrow> reviewer r = None) \<and>
         (no_selector sel ''rating'' \<longrightarrow> rating r = None) \<and>
         (no_selector sel ''date'' \<longrightarrow> date r = None) \<and>
         (no_selector sel ''text'' \<longrightarrow> text' r = None)"
proof -
  obtain c where rs: "rs = reviews_of_items L sel page_url (select L (html_parser L html) c)"
    using assms(1) by (auto simp: parse_reviews_def Let_def split: option.splits)
  then obtain it where r: "r = extract_fields L sel page_url it"
    using assms(2) by (auto simp: reviews_of_items_filter)
  show ?thesis
    by (simp add: r extract_fields_def select_field_none get_text_or_none_def rating_raw_of_def)
qed

lemmas eval_dom = descendants.simps select_by_tag_def document_def parser_of_def example_bs4_def
  select_one_def first_or_none_def select_field_def truthy_str_def truthy_float_def or_else_def
  get_def get_text_def all_strings_def strip_def py_isspace_def get_text_or_none_def
  rating_raw_of_def extract_fields_def any_field_def parse_reviews_def Let_def

lemmas eval_rating = parse_rating_def re_search_number_def is_digit_def startswith_def py_float_def
  nat_of_digits_def digit_val_def

theorem missing_selector_field_none_witness:
  "parse_reviews (example_bs4 [names_page]) (fst names_page) ''https://x.com/p1''
     [''review_container'' \<mapsto> ''li'', ''reviewer'' \<mapsto> ''b'', ''rating'' \<mapsto> []] =
   Inr [\<lparr>reviewer = Some ''Ann'', rating = None, date = None, text' = None, source_url = ''https://x.com/p1''\<rparr>,
        \<lparr>reviewer = Some ''Bob'', rating = None, date = None, text' = None, source_url = ''https://x.com/p1''\<rparr>] \<and>
   no_selector [''review_container'' \<mapsto> ''li'', ''reviewer'' \<mapsto> ''b'', ''rating'' \<mapsto> []] ''rating'' \<and>
   no_selector [''review_container'' \<mapsto> ''li'', ''reviewer'' \<mapsto> ''b'', ''rating'' \<mapsto> []] ''date'' \<and>
   no_selector [''review_container'' \<mapsto> ''li'', ''reviewer'' \<mapsto> ''b'', ''rating'' \<mapsto> []] ''text''"
proof -
  let ?sel = "[''review_container'' \<mapsto> ''li'', ''reviewer'' \<mapsto> ''b'', ''rating'' \<mapsto> []]"
  let ?r = "\<lparr>reviewer = Some ''Ann'', rating = parse_rating None, date = None, text' = None, source_url = ''https://x.com/p1''\<rparr>"
  let ?r2 = "\<lparr>reviewer = Some ''Bob'', rating = parse_rating None, date = None, text' = None, source_url = ''https://x.com/p1''\<rparr>"
  have p: "parse_reviews (example_bs4 [names_page]) (fst names_page) ''https://x.com/p1'' ?sel = Inr [?r, ?r2]"
    by (simp add: names_page_def eval_dom)
  have n: "no_selector ?sel ''rating''" "no_selector ?sel ''date''" "no_selector ?sel ''text''"
    by (simp_all add: no_selector_def)
  show ?thesis
    using p n missing_selector_field_none [OF p, of ?r] by simp
qed

text \<open>
  C3. A container is dropped when none of its four fields is true in the sense of
  Python, and a rating of 0 is not: on the page \<open><li><b>0 stars</b></li>\<close>, with
  \<open>li\<close> for the containers and \<open>b\<close> for the rating, the rating extracted is 0, not
  \<open>None\<close>, and yet the container gives no record.
\<close>

theorem zero_rating_container_dropped:
  "rating (extract_fields (example_bs4 [zero_page]) [''review_container'' \<mapsto> ''li'', ''rating'' \<mapsto> ''b'']
             ''https://x.com/p1'' (Tag ''li'' [] [Tag ''b'' [] [NavigableString ''0 stars'']])) = Some 0 \<and>
   parse_reviews (example_bs4 [zero_page]) (fst zero_page) ''https://x.com/p1''
     [''review_container'' \<mapsto> ''li'', ''rating'' \<mapsto> ''b''] = Inr []"
  by (simp add: zero_page_def eval_dom eval_rating)

subsection \<open>The fetcher\<close>


lemma retryable_not_success: "retryable (Response sc txt) \<Longrightarrow> \<not> (200 \<le> sc \<and> sc < 300)"
  by (auto simp: retryable_def)








subsection \<open>The pagination resolver\<close>









text \<open>
  C2. On a URL of the review site whose \<open>start\<close> is not a number, the fallback raises:
  with no next link on the page, \<open>https://www.yelp.com/biz/x?start=abc\<close> ends
  \<open>find_next_url\<close> with a \<open>ValueError\<close>, while \<open>https://yelp.com/biz/x?start=20\<close> gives
  the same URL with \<open>start=40\<close>.
\<close>

theorem find_next_url_raises_on_start:
  "find_next_url (example_bs4 [plain_page]) (fst plain_page) ''https://www.yelp.com/biz/x?start=abc'' None =
     Inl ValueError \<and>
   find_next_url (example_bs4 [plain_page]) (fst plain_page) ''https://yelp.com/biz/x?start=20'' None =
     Inr (Some ''https://yelp.com/biz/x?start=40'')"
  by code_simp

subsection \<open>Offline mode\<close>

lemma map_of_dict_set: "map_of (dict_set k v d) k' = (if k' = k then Some v else map_of d k')"
  by (induction d) auto

lemma dict_set_nonempty:
  "v \<noteq> [] \<Longrightarrow> list_all (\<lambda>p. snd p \<noteq> []) d \<Longrightarrow> list_all (\<lambda>p. snd p \<noteq> []) (dict_set k v d)"
  by (induction d) auto

lemma parse_qs_add_nonempty:
  "list_all (\<lambda>p. snd p \<noteq> []) d \<Longrightarrow> list_all (\<lambda>p. snd p \<noteq> []) (parse_qs_add d nv)"
  by (auto simp: parse_qs_add_def dict_set_nonempty split: option.splits)

lemma foldl_parse_qs_add_nonempty:
  "list_all (\<lambda>p. snd p \<noteq> []) d \<Longrightarrow> list_all (\<lambda>p. snd p \<noteq> []) (foldl parse_qs_add d nvs)"
  by (induction nvs arbitrary: d) (simp_all add: parse_qs_add_nonempty)

lemma parse_qs_nonempty: "list_all (\<lambda>p. snd p \<noteq> []) (parse_qs qs)"
  by (simp add: parse_qs_def foldl_parse_qs_add_nonempty)

lemma first_values_nonempty:
  "list_all (\<lambda>p. snd p \<noteq> []) d \<Longrightarrow> first_values d = Inr (map (\<lambda>p. (fst p, hd (snd p))) d)"
  by (induction d) (auto simp: and_then_def first_def split: list.splits)

lemma map_of_first_values:
  "map_of (map (\<lambda>p. (fst p, hd (snd p))) d) k = map_option hd (map_of d k)"
  by (induction d) auto

lemma with_start_written:
  assumes "list_all (\<lambda>p. snd p \<noteq> []) q"
  shows "\<exists>d. with_start u q n = Inr (urlunparse (u\<lparr>query := urlencode d\<rparr>)) \<and>
             map_of d ''start'' = Some (py_str n) \<and>
             (\<forall>k. k \<noteq> ''start'' \<longrightarrow> map_of d k = map_option hd (map_of q k))"
proof -
  let ?q = "dict_set ''start'' [py_str n] q"
  let ?d = "map (\<lambda>p. (fst p, hd (snd p))) ?q"
  have "list_all (\<lambda>p. snd p \<noteq> []) ?q"
    using assms by (simp add: dict_set_nonempty)
  then have "with_start u q n = Inr (urlunparse (u\<lparr>query := urlencode ?d\<rparr>))"
    by (simp add: with_start_def first_values_nonempty and_then_def)
  moreover have "map_of ?d ''start'' = Some (py_str n)"
    by (simp add: map_of_first_values map_of_dict_set)
  moreover have "\<forall>k. k \<noteq> ''start'' \<longrightarrow> map_of ?d k = map_option hd (map_of q k)"
    by (simp add: map_of_first_values map_of_dict_set)
  ultimately show ?thesis by blast
qed
















subsection \<open>The driver loop\<close>

lemma online_loop_stops_on_seen:
  "url = [] \<or> url \<in> seen \<Longrightarrow> online_loop L srv sel nsel idxs url seen r = r"
  by (cases idxs) auto

lemma online_loop_fetched:
  "\<exists>new. fetched (online_loop L srv sel nsel idxs url seen r) = fetched r @ new \<and>
         distinct new \<and> set new \<inter> seen = {} \<and> [] \<notin> set new \<and> length new \<le> length idxs"
proof (induction idxs arbitrary: url seen r)
  case Nil
  then show ?case by simp
next
  case (Cons i idxs)
  show ?case
  proof (cases "url = [] \<or> url \<in> seen")
    case True
    then show ?thesis by simp
  next
    case False
    let ?res = "fetch srv url 4 (9 / 5) (net r)"
    let ?r1 = "r\<lparr>fetched := fetched r @ [url], net := snd ?res\<rparr>"
    have one: "fetched r' = fetched r @ [url] \<Longrightarrow>
               \<exists>new. fetched r' = fetched r @ new \<and> distinct new \<and> set new \<inter> seen = {} \<and>
                     [] \<notin> set new \<and> length new \<le> length (i # idxs)" for r'
      using False by (intro exI [of _ "[url]"]) auto
    have more: "\<exists>new. fetched (online_loop L srv sel nsel idxs u (insert url seen) r') = fetched r @ new \<and>
                     distinct new \<and> set new \<inter> seen = {} \<and> [] \<notin> set new \<and>
                     length new \<le> length (i # idxs)"
      if "fetched r' = fetched r @ [url]" for r' u
    proof -
      obtain new where n: "fetched (online_loop L srv sel nsel idxs u (insert url seen) r') = fetched r' @ new"
        "distinct new" "set new \<inter> insert url seen = {}" "[] \<notin> set new" "length new \<le> length idxs"
        using Cons.IH [of u "insert url seen" r'] by blast
      show ?thesis
        using n that False by (intro exI [of _ "url # new"]) auto
    qed
    show ?thesis
    proof (cases "truthy_str (fst ?res)")
      case f: False
      then show ?thesis using False one [of ?r1] by (simp add: Let_def)
    next
      case t: True
      let ?html = "case fst ?res of Some h \<Rightarrow> h | None \<Rightarrow> []"
      show ?thesis
      proof (cases "parse_reviews L ?html url sel")
        case (Inl e)
        then show ?thesis using False t one [of "?r1\<lparr>raised := Some e\<rparr>"] by (simp add: Let_def)
      next
        case (Inr page_reviews)
        let ?r2 = "?r1\<lparr>all_reviews := all_reviews ?r1 @ page_reviews\<rparr>"
        show ?thesis
        proof (cases "find_next_url L ?html url nsel")
          case (Inl e)
          then show ?thesis
            using False t Inr one [of "?r2\<lparr>raised := Some e\<rparr>"] by (simp add: Let_def)
        next
          case nx: (Inr next_url)
          show ?thesis
          proof (cases "truthy_str next_url")
            case False
            then show ?thesis
              using \<open>\<not> (url = [] \<or> url \<in> seen)\<close> t Inr nx one [of ?r2] by (simp add: Let_def)
          next
            case True
            then show ?thesis
              using \<open>\<not> (url = [] \<or> url \<in> seen)\<close> t Inr nx
                more [of ?r2 "case next_url of Some u \<Rightarrow> u | None \<Rightarrow> []"]
              by (simp add: Let_def)
          qed
        qed
      qed
    qed
  qed
qed

lemma fetch_success:
  "srv (requests w) url = Response sc html \<Longrightarrow> 200 \<le> sc \<Longrightarrow> sc < 300 \<Longrightarrow>
   fetch srv url 4 (9 / 5) w = (Some html, w\<lparr>requests := requests w @ [url]\<rparr>)"
  by (simp add: fetch_def upt_rec Let_def)

lemma online_loop_self_link:
  assumes "url \<noteq> []" "url \<notin> seen" "fetch srv url 4 (9 / 5) (net r) = (Some html, w)" "html \<noteq> []"
    "parse_reviews L html url sel = Inr rs" "find_next_url L html url nsel = Inr (Some url)"
  shows "online_loop L srv sel nsel (i # idxs) url seen r =
         r\<lparr>fetched := fetched r @ [url], net := w, all_reviews := all_reviews r @ rs\<rparr>"
  using assms by (simp add: Let_def truthy_str_def online_loop_stops_on_seen)

lemma main_fetched:
  "distinct (fetched (main L F srv a)) \<and> [] \<notin> set (fetched (main L F srv a)) \<and>
   length (fetched (main L F srv a)) \<le> nat (pages a)"
proof (cases "offline_files a \<noteq> []")
  case True
  then show ?thesis by (simp add: main_def Let_def split: sum.splits)
next
  case False
  let ?r0 = "\<lparr>all_reviews = [], fetched = [], net = \<lparr>requests = [], sleeps = []\<rparr>, raised = None\<rparr>"
  let ?nsel = "if sel_next a \<noteq> [] then Some (sel_next a) else None"
  obtain new where n:
    "fetched (online_loop L srv (selectors_of a) ?nsel [1..<nat (pages a + 1)] (start_url a) {} ?r0) =
       fetched ?r0 @ new" "distinct new" "[] \<notin> set new" "length new \<le> length [1..<nat (pages a + 1)]"
    using online_loop_fetched [of L srv "selectors_of a" ?nsel "[1..<nat (pages a + 1)]" "start_url a" "{}" ?r0]
    by blast
  have m: "main L F srv a =
           online_loop L srv (selectors_of a) ?nsel [1..<nat (pages a + 1)] (start_url a) {} ?r0"
    using False by (simp add: main_def Let_def)
  have "length [1..<nat (pages a + 1)] = nat (pages a)" by simp
  then show ?thesis
    using n unfolding m by simp
qed

text \<open>
  C6. A run fetches no URL twice and never the empty URL, and fetches at most as many
  URLs as the page limit. Each turn of the loop tests the URL before it fetches: on the
  empty URL or a URL already seen the loop ends and nothing is fetched. From any state of
  the loop, the URLs fetched from there on are distinct and none of them has been seen.
  In particular, when the next page of a page is that page itself, the loop ends after
  fetching it once, whatever the number of turns left.
\<close>

theorem no_url_fetched_twice:
  "distinct (fetched (main L F srv a)) \<and> [] \<notin> set (fetched (main L F srv a)) \<and>
   length (fetched (main L F srv a)) \<le> nat (pages a) \<and>
   (url = [] \<or> url \<in> seen \<longrightarrow> online_loop L srv sel nsel idxs url seen r = r) \<and>
   (\<exists>new. fetched (online_loop L srv sel nsel idxs url seen r) = fetched r @ new \<and>
          distinct new \<and> set new \<inter> seen = {} \<and> [] \<notin> set new) \<and>
   (url \<noteq> [] \<and> url \<notin> seen \<and> fetch srv url 4 (9 / 5) (net r) = (Some html, w) \<and> html \<noteq> [] \<and>
    parse_reviews L html url sel = Inr rs \<and> find_next_url L html url nsel = Inr (Some url) \<longrightarrow>
      online_loop L srv sel nsel (i # idxs) url seen r =
        r\<lparr>fetched := fetched r @ [url], net := w, all_reviews := all_reviews r @ rs\<rparr>)"
proof -
  have "\<exists>new. fetched (online_loop L srv sel nsel idxs url seen r) = fetched r @ new \<and>
          distinct new \<and> set new \<inter> seen = {} \<and> [] \<notin> set new"
    using online_loop_fetched [of L srv sel nsel idxs url seen r] by blast
  then show ?thesis
    using main_fetched [of L F srv a] online_loop_stops_on_seen [of url seen L srv sel nsel idxs r]
      online_loop_self_link [of url seen srv r html w L sel rs nsel i idxs]
    by blast
qed

theorem no_url_fetched_twice_witness:
  "fetch (site [(''https://x.com/p1'', fst looping_page)]) ''https://x.com/p1'' 4 (9 / 5) (net new_run) =
     (Some (fst looping_page), \<lparr>requests = [''https://x.com/p1''], sleeps = []\<rparr>) \<and>
   find_next_url (example_bs4 [looping_page]) (fst looping_page) ''https://x.com/p1'' None =
     Inr (Some ''https://x.com/p1'') \<and>
   online_loop (example_bs4 [looping_page]) (site [(''https://x.com/p1'', fst looping_page)])
     (selectors_of example_args) None [1, 2, 3] ''https://x.com/p1'' {} new_run =
     \<lparr>all_reviews = [\<lparr>reviewer = Some ''Ann'', rating = None, date = None, text' = None,
                       source_url = ''https://x.com/p1''\<rparr>],
      fetched = [''https://x.com/p1''],
      net = \<lparr>requests = [''https://x.com/p1''], sleeps = []\<rparr>, raised = None\<rparr>"
proof -
  let ?L = "example_bs4 [looping_page]"
  let ?srv = "site [(''https://x.com/p1'', fst looping_page)]"
  let ?w = "\<lparr>requests = [''https://x.com/p1''], sleeps = []\<rparr>"
  let ?rs = "[\<lparr>reviewer = Some ''Ann'', rating = None, date = None, text' = None,
               source_url = ''https://x.com/p1''\<rparr>]"
  have f: "fetch ?srv ''https://x.com/p1'' 4 (9 / 5) (net new_run) = (Some (fst looping_page), ?w)"
    by code_simp
  have ne: "fst looping_page \<noteq> []"
    by code_simp
  have p: "parse_reviews ?L (fst looping_page) ''https://x.com/p1'' (selectors_of example_args) = Inr ?rs"
    by code_simp
  have n: "find_next_url ?L (fst looping_page) ''https://x.com/p1'' None = Inr (Some ''https://x.com/p1'')"
    by code_simp
  have u: "''https://x.com/p1'' \<noteq> []" "''https://x.com/p1'' \<notin> ({} :: string set)"
    by simp_all
  have "online_loop ?L ?srv (selectors_of example_args) None (1 # [2, 3]) ''https://x.com/p1'' {} new_run =
        new_run\<lparr>fetched := fetched new_run @ [''https://x.com/p1''], net := ?w,
                 all_reviews := all_reviews new_run @ ?rs\<rparr>"
    using no_url_fetched_twice [of ?L undefined ?srv example_args "''https://x.com/p1''" "{}"
        "selectors_of example_args" None "[2, 3]" new_run "fst looping_page" ?w ?rs 1]
      u f ne p n
    by blast
  then show ?thesis
    using f n by (simp add: new_run_def)
qed

text \<open>
  C9. A site of two pages: the first fetched at once with a status from 200 to 299,
  giving 20 records and the second page as next page, the second giving 5 records and no
  next page. A run with the page limit 3 collects the 25 records, fetches exactly the two
  pages, each with one request, and ends without an exception.
\<close>

theorem two_page_run:
  assumes "offline_files a = []" and "pages a = 3" and "start_url a = url1"
    and "url1 \<noteq> []" and "url2 \<noteq> []" and "url2 \<noteq> url1"
    and "srv [] url1 = Response sc1 html1" and "200 \<le> sc1 \<and> sc1 < 300" and "html1 \<noteq> []"
    and "parse_reviews L html1 url1 (selectors_of a) = Inr rs1" and "length rs1 = 20"
    and "find_next_url L html1 url1 (if sel_next a \<noteq> [] then Some (sel_next a) else None) = Inr (Some url2)"
    and "srv [url1] url2 = Response sc2 html2" and "200 \<le> sc2 \<and> sc2 < 300" and "html2 \<noteq> []"
    and "parse_reviews L html2 url2 (selectors_of a) = Inr rs2" and "length rs2 = 5"
    and "find_next_url L html2 url2 (if sel_next a \<noteq> [] then Some (sel_next a) else None) = Inr None"
  shows "all_reviews (main L F srv a) = rs1 @ rs2 \<and>
         length (all_reviews (main L F srv a)) = 25 \<and>
         fetched (main L F srv a) = [url1, url2] \<and>
         requests (net (main L F srv a)) = [url1, url2] \<and>
         raised (main L F srv a) = None"
proof -
  let ?w0 = "\<lparr>requests = [], sleeps = []\<rparr>"
  let ?w1 = "\<lparr>requests = [url1], sleeps = []\<rparr>"
  have f1: "fetch srv url1 4 (9 / 5) ?w0 = (Some html1, ?w1)"
    using fetch_success [of srv ?w0 url1 sc1 html1] assms(7,8) by simp
  have f2: "fetch srv url2 4 (9 / 5) ?w1 = (Some html2, \<lparr>requests = [url1, url2], sleeps = []\<rparr>)"
    using fetch_success [of srv ?w1 url2 sc2 html2] assms(13,14) by simp
  have idx: "[1..<nat (3 + 1)] = [1, 2, 3]"
    by (simp add: upt_rec)
  have m: "main L F srv a =
     \<lparr>all_reviews = rs1 @ rs2, fetched = [url1, url2],
      net = \<lparr>requests = [url1, url2], sleeps = []\<rparr>, raised = None\<rparr>"
    unfolding main_def Let_def assms(2) idx
    using assms(1,3,4,5,6,9,10,12,15,16,18) f1 f2
    by (simp add: Let_def truthy_str_def)
  show ?thesis
    using assms(11,17) by (simp add: m)
qed

theorem two_page_run_witness:
  "parse_reviews (example_bs4 [page_one, page_two]) (fst page_one) ''https://x.com/p1''
     (selectors_of example_args) =
     Inr (replicate 20 \<lparr>reviewer = Some ''Ann'', rating = None, date = None, text' = None,
                         source_url = ''https://x.com/p1''\<rparr>) \<and>
   find_next_url (example_bs4 [page_one, page_two]) (fst page_one) ''https://x.com/p1'' None =
     Inr (Some ''https://x.com/p2'') \<and>
   parse_reviews (example_bs4 [page_one, page_two]) (fst page_two) ''https://x.com/p2''
     (selectors_of example_args) =
     Inr (replicate 5 \<lparr>reviewer = Some ''Ann'', rating = None, date = None, text' = None,
                        source_url = ''https://x.com/p2''\<rparr>) \<and>
   find_next_url (example_bs4 [page_one, page_two]) (fst page_two) ''https://x.com/p2'' None = Inr None \<and>
   length (all_reviews (main (example_bs4 [page_one, page_two]) example_files
     (site [(''https://x.com/p1'', fst page_one), (''https://x.com/p2'', fst page_two)]) example_args)) = 25 \<and>
   fetched (main (example_bs4 [page_one, page_two]) example_files
     (site [(''https://x.com/p1'', fst page_one), (''https://x.com/p2'', fst page_two)]) example_args) =
     [''https://x.com/p1'', ''https://x.com/p2'']"
proof -
  let ?L = "example_bs4 [page_one, page_two]"
  let ?srv = "site [(''https://x.com/p1'', fst page_one), (''https://x.com/p2'', fst page_two)]"
  let ?rs1 = "replicate 20 \<lparr>reviewer = Some ''Ann'', rating = None, date = None, text' = None,
                            source_url = ''https://x.com/p1''\<rparr>"
  let ?rs2 = "replicate 5 \<lparr>reviewer = Some ''Ann'', rating = None, date = None, text' = None,
                           source_url = ''https://x.com/p2''\<rparr>"
  have a: "offline_files example_args = []" "pages example_args = 3"
    "start_url example_args = ''https://x.com/p1''" "sel_next example_args = []"
    by (simp_all add: example_args_def)
  have s1: "?srv [] ''https://x.com/p1'' = Response 200 (fst page_one)"
    by (simp add: site_def)
  have s2: "?srv [''https://x.com/p1''] ''https://x.com/p2'' = Response 200 (fst page_two)"
    by (simp add: site_def)
  have ne: "fst page_one \<noteq> []" "fst page_two \<noteq> []"
    by code_simp+
  have p1: "parse_reviews ?L (fst page_one) ''https://x.com/p1'' (selectors_of example_args) = Inr ?rs1"
    by code_simp
  have p2: "parse_reviews ?L (fst page_two) ''https://x.com/p2'' (selectors_of example_args) = Inr ?rs2"
    by code_simp
  have n1: "find_next_url ?L (fst page_one) ''https://x.com/p1'' None = Inr (Some ''https://x.com/p2'')"
    by code_simp
  have n2: "find_next_url ?L (fst page_two) ''https://x.com/p2'' None = Inr None"
    by code_simp
  have "all_reviews (main ?L example_files ?srv example_args) = ?rs1 @ ?rs2 \<and>
        length (all_reviews (main ?L example_files ?srv example_args)) = 25 \<and>
        fetched (main ?L example_files ?srv example_args) = [''https://x.com/p1'', ''https://x.com/p2''] \<and>
        requests (net (main ?L example_files ?srv example_args)) = [''https://x.com/p1'', ''https://x.com/p2''] \<and>
        raised (main ?L example_files ?srv example_args) = None"
    by (rule two_page_run [where ?sc1.0 = 200 and ?sc2.0 = 200 and ?html1.0 = "fst page_one"
          and ?html2.0 = "fst page_two" and ?rs1.0 = ?rs1 and ?rs2.0 = ?rs2])
       (simp_all add: a s1 s2 ne p1 p2 n1 n2)
  then show ?thesis
    using p1 p2 n1 n2 by simp
qed

subsection \<open>Further properties of the extractor and of the offset fallback\<close>

text \<open>
  A container is kept exactly when one of its text fields is not \<open>None\<close> or its
  rating is neither \<open>None\<close> nor 0; every record carries the URL of its page.
\<close>

lemma get_text_or_none_truthy: "truthy_str (get_text_or_none nd) = (get_text_or_none nd \<noteq> None)"
  by (auto simp: get_text_or_none_def truthy_str_def Let_def split: option.splits)

lemma container_kept_iff:
  "any_field (extract_fields L sel page_url it) =
     (reviewer (extract_fields L sel page_url it) \<noteq> None \<or>
      (rating (extract_fields L sel page_url it) \<noteq> None \<and>
       rating (extract_fields L sel page_url it) \<noteq> Some 0) \<or>
      date (extract_fields L sel page_url it) \<noteq> None \<or>
      text' (extract_fields L sel page_url it) \<noteq> None)"
  by (auto simp: any_field_def extract_fields_def get_text_or_none_truthy truthy_float_def
      split: option.splits)

lemma parse_reviews_records:
  "parse_reviews L html page_url sel = Inr rs \<Longrightarrow>
   \<exists>c. sel ''review_container'' = Some c \<and>
       rs = filter any_field (map (extract_fields L sel page_url) (select L (html_parser L html) c))"
  by (auto simp: parse_reviews_def Let_def reviews_of_items_filter split: option.splits)

lemma parse_reviews_source_url:
  "parse_reviews L html page_url sel = Inr rs \<Longrightarrow> r \<in> set rs \<Longrightarrow> source_url r = page_url"
  by (auto dest!: parse_reviews_records simp: extract_fields_def)

text \<open>
  On a URL of the review site the fallback reads \<open>start\<close>, 0 when missing: when the
  value is an integer the next URL has that integer plus 20 as \<open>start\<close>, and when it
  is not, the conversion raises.
\<close>

lemma map_of_nonempty:
  "list_all (\<lambda>p. snd p \<noteq> []) d \<Longrightarrow> map_of d k = Some v \<Longrightarrow> v \<noteq> []"
  by (induction d) (auto split: if_splits)

lemma yelp_fallback_start:
  assumes "urlparse page_url [] = Inr u" "contains ''yelp.com'' (netloc u)" "contains ''/biz/'' (path u)"
  shows "\<exists>s. first (case map_of (parse_qs (query u)) ''start'' of Some v \<Rightarrow> v | None \<Rightarrow> [''0'']) = Inr s \<and>
             (case py_int s of
                Inl e \<Rightarrow> yelp_fallback page_url = Inl e
              | Inr n \<Rightarrow>
                  (\<exists>d. yelp_fallback page_url = Inr (Some (urlunparse (u\<lparr>query := urlencode d\<rparr>))) \<and>
                       map_of d ''start'' = Some (py_str (n + 20)) \<and>
                       (\<forall>k. k \<noteq> ''start'' \<longrightarrow> map_of d k = map_option hd (map_of (parse_qs (query u)) k))))"
proof -
  let ?q = "parse_qs (query u)"
  let ?v = "case map_of ?q ''start'' of Some v \<Rightarrow> v | None \<Rightarrow> [''0'']"
  have "?v \<noteq> []"
    using map_of_nonempty [OF parse_qs_nonempty, of "query u" "''start''"]
    by (auto split: option.splits)
  then obtain s where s: "first ?v = Inr s"
    by (cases ?v) (auto simp: first_def)
  show ?thesis
  proof (cases "py_int s")
    case (Inl e)
    then show ?thesis
      using assms s by (auto simp: yelp_fallback_def and_then_def Let_def)
  next
    case (Inr n)
    obtain d where d: "with_start u ?q (n + 20) = Inr (urlunparse (u\<lparr>query := urlencode d\<rparr>))"
      "map_of d ''start'' = Some (py_str (n + 20))"
      "\<forall>k. k \<noteq> ''start'' \<longrightarrow> map_of d k = map_option hd (map_of ?q k)"
      using with_start_written [OF parse_qs_nonempty, of u "query u" "n + 20"] by blast
    have "yelp_fallback page_url = Inr (Some (urlunparse (u\<lparr>query := urlencode d\<rparr>)))"
      using assms s Inr d(1) by (simp add: yelp_fallback_def and_then_def Let_def)
    then show ?thesis
      using s Inr d(2,3) by auto
  qed
qed

end
